theory Spec2Isabelle
  imports Main
begin

section \<open>Layer identities and the mock layer store (download\_test.go)\<close>

text \<open>
  DiffIDs and ChainIDs are Go strings (\<open>layer.DiffID\<close>, \<open>layer.ChainID\<close>), modelled as
  \<open>string\<close>. Error values are either the sentinels the code compares against or an
  opaque failure carrying its message (\<open>errors.New\<close>, or an error of a collaborator).
\<close>

datatype error =
    ErrLayerDoesNotExist
  | Canceled
  | IndexOutOfRange
  | Failure string

text \<open>A call either returns its value or panics.\<close>

datatype 'a outcome = Returns 'a | Panics error

text \<open>
  \<open>digest.FromBytes\<close> belongs to an external library; it is a parameter of the model
  and yields either an error or the textual digest of its argument.
\<close>

type_synonym digester = "string \<Rightarrow> error + string"

text \<open>
  \<open>createChainIDFromParent(parent, dgsts...)\<close>: the recursion of the source over the
  variadic list; a failing digest is the source's \<open>panic(err)\<close>.
\<close>

fun createChainIDFromParent :: "digester \<Rightarrow> string \<Rightarrow> string list \<Rightarrow> string outcome" where
  "createChainIDFromParent H parent [] = Returns parent"
| "createChainIDFromParent H parent (d # dgsts) =
     (if parent = [] then createChainIDFromParent H d dgsts
      else (case H (parent @ '' '' @ d) of
              Inl err \<Rightarrow> Panics err
            | Inr dgst \<Rightarrow> createChainIDFromParent H dgst dgsts))"

text \<open>
  A \<open>mockLayer\<close> is always handled through a pointer (\<open>*mockLayer\<close>), and \<open>parent\<close> is an
  interface value holding such a pointer or nil. Pointers are indices into the list of
  allocated objects; \<open>&mockLayer{...}\<close> appends to it.
\<close>

record mockLayer =
  layerData :: string
  diffID :: string
  chainID :: string
  parent :: "nat option"

text \<open>
  The state a \<open>mockLayerStore\<close> method runs in: the allocated layer objects and the
  store's only field, the map \<open>layers\<close> from ChainID to layer pointer.
\<close>

record mockLayerStore =
  objects :: "mockLayer list"
  layers :: "string \<rightharpoonup> nat"

text \<open>
  An \<open>io.Reader\<close> as \<open>bytes.Buffer.ReadFrom\<close> sees it: the bytes it delivers, and the
  error that ends the stream (\<open>None\<close> for a clean end of file).
\<close>

record reader =
  content :: string
  fault :: "error option"

definition Get :: "mockLayerStore \<Rightarrow> string \<Rightarrow> error + nat" where
  "Get ls c = (case layers ls c of None \<Rightarrow> Inl ErrLayerDoesNotExist | Some l \<Rightarrow> Inr l)"

text \<open>
  \<open>Register\<close>, statement by statement: the parent lookup (only for a non-empty
  \<open>parentID\<close>), the allocation of \<open>l\<close>, \<open>ReadFrom\<close>, the digest of the buffered bytes,
  the chain ID, and the insertion into the map.
\<close>

definition Register ::
  "digester \<Rightarrow> mockLayerStore \<Rightarrow> reader \<Rightarrow> string \<Rightarrow> (error + nat) outcome \<times> mockLayerStore" where
  "Register H ls r parentID =
     (case (if parentID \<noteq> [] then map_sum id Some (Get ls parentID) else Inr None) of
        Inl err \<Rightarrow> (Returns (Inl err), ls)
      | Inr par \<Rightarrow>
          let l = length (objects ls);
              obj = \<lparr>layerData = content r, diffID = [], chainID = [], parent = par\<rparr>;
              ls1 = ls\<lparr>objects := objects ls @ [obj]\<rparr>
          in (case fault r of
                Some err \<Rightarrow> (Returns (Inl err), ls1)
              | None \<Rightarrow>
                  (case H (content r) of
                     Inl err \<Rightarrow> (Returns (Inl err), ls1)
                   | Inr d \<Rightarrow>
                       (case createChainIDFromParent H parentID [d] of
                          Panics err \<Rightarrow> (Panics err, ls1\<lparr>objects := objects ls @ [obj\<lparr>diffID := d\<rparr>]\<rparr>)
                        | Returns c \<Rightarrow>
                            (Returns (Inr l),
                             \<lparr>objects = objects ls @ [obj\<lparr>diffID := d, chainID := c\<rparr>],
                              layers = (layers ls)(c \<mapsto> l)\<rparr>)))))"

text \<open>
  The store before any registration, and the invariant of every store built from it:
  each pointer in the map denotes an allocated object, and that object carries the
  ChainID it is stored under.
\<close>

definition emptyStore :: mockLayerStore where
  "emptyStore = \<lparr>objects = [], layers = Map.empty\<rparr>"

definition valid_pointers :: "mockLayerStore \<Rightarrow> bool" where
  "valid_pointers ls = (\<forall>c l. layers ls c = Some l \<longrightarrow> l < length (objects ls) \<and> chainID (objects ls ! l) = c)"

section \<open>The OneView profile lookup (GetProfileNameBySN)\<close>

text \<open>
  The two structs of the source, field by field; Go's \<open>int\<close> is only compared with zero
  here and is modelled as \<open>int\<close>.
\<close>

record ServerProfile =
  Type :: string
  URI :: string
  Name :: string
  Description :: string
  SerialNumber :: string
  UUID :: string
  ServerHardwareURI :: string
  ServerHardwareTypeURI :: string
  EnclosureGroupURI :: string
  EnclosureURI :: string
  EnclosureBay :: int
  Affinity :: string
  Created :: string
  Modified :: string
  Status :: string
  State :: string
  InProgress :: bool
  TaskURI :: string
  ETAG :: string

record ServerProfileList =
  Total :: int
  Count :: int
  Start :: int
  PrevPageURI :: string
  NextPageURI :: string
  URI :: string
  Members :: "ServerProfile list"

text \<open>The zero values of the two structs (\<open>var profile ServerProfile\<close>).\<close>

definition zeroServerProfile :: ServerProfile where
  "zeroServerProfile =
     \<lparr>Type = [], URI = [], Name = [], Description = [], SerialNumber = [], UUID = [],
      ServerHardwareURI = [], ServerHardwareTypeURI = [], EnclosureGroupURI = [],
      EnclosureURI = [], EnclosureBay = 0, Affinity = [], Created = [], Modified = [],
      Status = [], State = [], InProgress = False, TaskURI = [], ETAG = []\<rparr>"

definition zeroServerProfileList :: ServerProfileList where
  "zeroServerProfileList =
     \<lparr>Total = 0, Count = 0, Start = 0, PrevPageURI = [], NextPageURI = [], URI = [],
      Members = []\<rparr>"

text \<open>
  The REST client and \<open>json.Unmarshal\<close> are collaborators outside this file. They are
  parameters: the GET call, given the URI and the query string set on the client, returns
  the response body or an error; the decoder returns the decoded list or an error.
\<close>

type_synonym restAPICall = "string \<Rightarrow> (string \<rightharpoonup> string) \<Rightarrow> error + string"

type_synonym unmarshal = "string \<Rightarrow> error + ServerProfileList"

text \<open>The query map \<open>q\<close>; \<open>%s\<close> is replaced by the serial number between single quotes.\<close>

definition profileQuery :: "string \<Rightarrow> (string \<rightharpoonup> string)" where
  "profileQuery serialnum =
     [''filter'' \<mapsto> ''serialNumber matches '' @ [CHR 0x27] @ serialnum @ [CHR 0x27],
      ''sort'' \<mapsto> ''name:asc'']"

text \<open>
  \<open>GetProfileNameBySN\<close> returns the pair (profile, error) of the source, the error being
  \<open>None\<close> for nil. \<open>profiles.Members[0]\<close> on an empty slice is Go's runtime panic.
\<close>

definition GetProfileNameBySN ::
  "restAPICall \<Rightarrow> unmarshal \<Rightarrow> string \<Rightarrow> (ServerProfile \<times> error option) outcome" where
  "GetProfileNameBySN call decode serialnum =
     (let uri = ''/rest/server-profiles'';
          q = profileQuery serialnum;
          profile = zeroServerProfile
      in case call uri q of
           Inl err \<Rightarrow> Returns (profile, Some err)
         | Inr data \<Rightarrow>
             (case decode data of
                Inl err \<Rightarrow> Returns (profile, Some err)
              | Inr profiles \<Rightarrow>
                  if Total profiles > 0
                  then (case Members profiles of
                          [] \<Rightarrow> Panics IndexOutOfRange
                        | m # _ \<Rightarrow> Returns (m, None))
                  else Returns (profile, None)))"

section \<open>Concrete inputs\<close>

text \<open>
  Inputs on which the definitions are evaluated: a digester that prefixes its argument
  (a stand-in for SHA-256 with the same textual shape), readers that end cleanly, the
  stores after one and after two registrations of the same bytes, and small REST and
  decoder collaborators. \<open>emptyMembersJSON\<close> is the body \<open>{"total":1}\<close>, which
  \<open>json.Unmarshal\<close> decodes to a list with \<open>Total = 1\<close> and no members.
\<close>

definition prefixDigest :: digester where
  "prefixDigest s = Inr (''sha256:'' @ s)"

definition readerOf :: "string \<Rightarrow> reader" where
  "readerOf s = \<lparr>content = s, fault = None\<rparr>"

definition store1 :: mockLayerStore where
  "store1 = snd (Register prefixDigest emptyStore (readerOf ''id1'') [])"

definition store2 :: mockLayerStore where
  "store2 = snd (Register prefixDigest store1 (readerOf ''id1'') [])"

definition emptyMembersJSON :: string where
  "emptyMembersJSON = ''{'' @ [CHR 0x22] @ ''total'' @ [CHR 0x22] @ '':1}''"

definition oneTotalNoMembers :: unmarshal where
  "oneTotalNoMembers data =
     (if data = emptyMembersJSON then Inr (zeroServerProfileList\<lparr>Total := 1\<rparr>)
      else Inl (Failure ''unexpected end of JSON input''))"

definition answering :: "string \<Rightarrow> restAPICall" where
  "answering data uri q = Inr data"

definition refusing :: restAPICall where
  "refusing uri q = Inl (Failure ''connection refused'')"

definition decodingTo :: "ServerProfileList \<Rightarrow> unmarshal" where
  "decodingTo profiles data = Inr profiles"

section \<open>The chain of digests\<close>

lemma createChainIDFromParent_snoc:
  "createChainIDFromParent H P (ds @ [D]) =
     (case createChainIDFromParent H P ds of
        Panics e \<Rightarrow> Panics e
      | Returns c \<Rightarrow> createChainIDFromParent H c [D])"
  by (induction ds arbitrary: P) (auto split: sum.splits)

lemma createChainIDFromParent_total:
  "\<forall>s. \<exists>c. H s = Inr c \<Longrightarrow> \<exists>c. createChainIDFromParent H P ds = Returns c"
proof (induction ds arbitrary: P)
  case Nil
  show ?case by simp
next
  case (Cons d ds)
  obtain c where c: "H (P @ '' '' @ d) = Inr c" using Cons.prems by blast
  show ?case
  proof (cases "P = []")
    case True
    then show ?thesis using Cons.IH [OF Cons.prems, of d] by simp
  next
    case False
    then show ?thesis using c Cons.IH [OF Cons.prems, of c] by simp
  qed
qed

text \<open>
  Claim C1. A root layer (empty parent) has its DiffID as ChainID; with a non-empty parent
  \<open>P\<close> the ChainID of a layer with DiffID \<open>D\<close> is the digest of \<open>P\<close>, one space and \<open>D\<close>.
  For a whole list of DiffIDs the last layer's ChainID is obtained in this way from the
  chain of the layers below it, and the function returns whenever the digester does.
\<close>

theorem chainID_construction:
  "createChainIDFromParent H [] [D] = Returns D
   \<and> (P \<noteq> [] \<longrightarrow>
        createChainIDFromParent H P [D] =
          (case H (P @ '' '' @ D) of Inl e \<Rightarrow> Panics e | Inr c \<Rightarrow> Returns c))
   \<and> createChainIDFromParent H P (ds @ [D]) =
        (case createChainIDFromParent H P ds of
           Panics e \<Rightarrow> Panics e
         | Returns c \<Rightarrow>
             if c = [] then Returns D
             else (case H (c @ '' '' @ D) of Inl e \<Rightarrow> Panics e | Inr h \<Rightarrow> Returns h))
   \<and> ((\<forall>s. \<exists>c. H s = Inr c) \<longrightarrow> (\<exists>c. createChainIDFromParent H P ds = Returns c))"
proof -
  have one: "createChainIDFromParent H [] [D] = Returns D" by simp
  have two: "P \<noteq> [] \<longrightarrow>
        createChainIDFromParent H P [D] =
          (case H (P @ '' '' @ D) of Inl e \<Rightarrow> Panics e | Inr c \<Rightarrow> Returns c)"
    by (simp split: sum.splits)
  have three: "createChainIDFromParent H P (ds @ [D]) =
        (case createChainIDFromParent H P ds of
           Panics e \<Rightarrow> Panics e
         | Returns c \<Rightarrow>
             if c = [] then Returns D
             else (case H (c @ '' '' @ D) of Inl e \<Rightarrow> Panics e | Inr h \<Rightarrow> Returns h))"
    by (simp add: createChainIDFromParent_snoc split: outcome.splits sum.splits)
  have four: "(\<forall>s. \<exists>c. H s = Inr c) \<longrightarrow> (\<exists>c. createChainIDFromParent H P ds = Returns c)"
    using createChainIDFromParent_total by blast
  show ?thesis using one two three four by blast
qed

theorem chainID_construction_witness:
  "createChainIDFromParent prefixDigest [] [''sha256:x''] = Returns ''sha256:x''
   \<and> createChainIDFromParent prefixDigest ''sha256:x'' [''sha256:y''] = Returns ''sha256:sha256:x sha256:y''
   \<and> createChainIDFromParent prefixDigest [] ([''sha256:x'', ''sha256:y''] @ [''sha256:z''])
        = Returns ''sha256:sha256:sha256:x sha256:y sha256:z''
   \<and> (\<exists>c. createChainIDFromParent prefixDigest [] [''sha256:x'', ''sha256:y''] = Returns c)"
  using chainID_construction [where H = prefixDigest and D = "''sha256:x''" and P = "''sha256:x''" and ds = "[]"]
        chainID_construction [where H = prefixDigest and D = "''sha256:y''" and P = "''sha256:x''" and ds = "[]"]
        chainID_construction [where H = prefixDigest and D = "''sha256:z''" and P = "[]" and ds = "[''sha256:x'', ''sha256:y'']"]
  by (simp add: prefixDigest_def)

section \<open>The mock layer store\<close>

lemma Register_missing_parent:
  "pid \<noteq> [] \<Longrightarrow> layers ls pid = None \<Longrightarrow>
     Register H ls r pid = (Returns (Inl ErrLayerDoesNotExist), ls)"
  by (simp add: Register_def Get_def)

lemma Register_ok_shape:
  assumes "Register H ls r pid = (Returns (Inr l), ls')"
  shows "\<exists>d c. fault r = None \<and> H (content r) = Inr d
           \<and> createChainIDFromParent H pid [d] = Returns c
           \<and> (pid = [] \<or> pid \<in> dom (layers ls))
           \<and> l = length (objects ls)
           \<and> ls' = \<lparr>objects = objects ls @
                      [\<lparr>layerData = content r, diffID = d, chainID = c,
                        parent = (if pid = [] then None else layers ls pid)\<rparr>],
                    layers = (layers ls)(c \<mapsto> l)\<rparr>"
  using assms
  by (auto simp: Register_def Get_def Let_def simp del: createChainIDFromParent.simps
           split: if_splits option.splits sum.splits outcome.splits)

lemma Register_ok_intro:
  assumes "pid = [] \<or> pid \<in> dom (layers ls)" and "fault r = None"
    and "H (content r) = Inr d" and "createChainIDFromParent H pid [d] = Returns c"
  shows "Register H ls r pid =
           (Returns (Inr (length (objects ls))),
            \<lparr>objects = objects ls @
                      [\<lparr>layerData = content r, diffID = d, chainID = c,
                        parent = (if pid = [] then None else layers ls pid)\<rparr>],
             layers = (layers ls)(c \<mapsto> length (objects ls))\<rparr>)"
  using assms
  by (auto simp: Register_def Get_def Let_def simp del: createChainIDFromParent.simps
           split: if_splits option.splits sum.splits outcome.splits)

lemma store1_eq:
  "store1 = \<lparr>objects = [\<lparr>layerData = ''id1'', diffID = ''sha256:id1'', chainID = ''sha256:id1'', parent = None\<rparr>],
             layers = [''sha256:id1'' \<mapsto> 0]\<rparr>"
  by (simp add: store1_def Register_def emptyStore_def readerOf_def prefixDigest_def)

lemma store2_eq:
  "store2 = \<lparr>objects = [\<lparr>layerData = ''id1'', diffID = ''sha256:id1'', chainID = ''sha256:id1'', parent = None\<rparr>,
                        \<lparr>layerData = ''id1'', diffID = ''sha256:id1'', chainID = ''sha256:id1'', parent = None\<rparr>],
             layers = [''sha256:id1'' \<mapsto> 1]\<rparr>"
  by (simp add: store2_def store1_eq Register_def readerOf_def prefixDigest_def)

text \<open>
  Claim C3. A successful \<open>Register\<close> returns a layer holding exactly the reader's bytes,
  whose DiffID is their digest and whose ChainID is what \<open>createChainIDFromParent\<close> makes
  of the parent ChainID and that DiffID (the DiffID itself for an empty parent, the digest
  of parent, space and DiffID otherwise); the layer is stored under its ChainID. With a
  non-empty parent ChainID that the store does not hold, \<open>Register\<close> fails with
  \<open>ErrLayerDoesNotExist\<close> and leaves the store as it was. With a known (or empty) parent,
  a clean reader and a digester that succeeds, \<open>Register\<close> succeeds.
\<close>

theorem Register_postcondition:
  "(Register H ls r pid = (Returns (Inr l), ls') \<longrightarrow>
      l < length (objects ls') \<and> fault r = None
      \<and> layerData (objects ls' ! l) = content r
      \<and> H (content r) = Inr (diffID (objects ls' ! l))
      \<and> createChainIDFromParent H pid [diffID (objects ls' ! l)] = Returns (chainID (objects ls' ! l))
      \<and> (if pid = [] then chainID (objects ls' ! l) = diffID (objects ls' ! l)
          else H (pid @ '' '' @ diffID (objects ls' ! l)) = Inr (chainID (objects ls' ! l))
               \<and> parent (objects ls' ! l) = layers ls pid \<and> pid \<in> dom (layers ls))
      \<and> layers ls' = (layers ls)(chainID (objects ls' ! l) \<mapsto> l))
   \<and> (pid \<noteq> [] \<and> layers ls pid = None \<longrightarrow>
        Register H ls r pid = (Returns (Inl ErrLayerDoesNotExist), ls))
   \<and> ((pid = [] \<or> pid \<in> dom (layers ls)) \<and> fault r = None
        \<and> (\<forall>s. \<exists>c. H s = Inr c) \<longrightarrow>
        (\<exists>l ls'. Register H ls r pid = (Returns (Inr l), ls')))"
proof -
  have ok: "l < length (objects ls') \<and> fault r = None
      \<and> layerData (objects ls' ! l) = content r
      \<and> H (content r) = Inr (diffID (objects ls' ! l))
      \<and> createChainIDFromParent H pid [diffID (objects ls' ! l)] = Returns (chainID (objects ls' ! l))
      \<and> (if pid = [] then chainID (objects ls' ! l) = diffID (objects ls' ! l)
          else H (pid @ '' '' @ diffID (objects ls' ! l)) = Inr (chainID (objects ls' ! l))
               \<and> parent (objects ls' ! l) = layers ls pid \<and> pid \<in> dom (layers ls))
      \<and> layers ls' = (layers ls)(chainID (objects ls' ! l) \<mapsto> l)"
    if reg: "Register H ls r pid = (Returns (Inr l), ls')"
  proof -
    from Register_ok_shape [OF reg] obtain d c where
      f: "fault r = None" and h: "H (content r) = Inr d"
      and ch: "createChainIDFromParent H pid [d] = Returns c"
      and par: "pid = [] \<or> pid \<in> dom (layers ls)"
      and l: "l = length (objects ls)"
      and ls': "ls' = \<lparr>objects = objects ls @
                      [\<lparr>layerData = content r, diffID = d, chainID = c,
                        parent = (if pid = [] then None else layers ls pid)\<rparr>],
                    layers = (layers ls)(c \<mapsto> l)\<rparr>"
      by blast
    have obj: "objects ls' ! l = \<lparr>layerData = content r, diffID = d, chainID = c,
                        parent = (if pid = [] then None else layers ls pid)\<rparr>"
      by (simp add: ls' l)
    have len: "l < length (objects ls')" by (simp add: ls' l)
    have chain: "if pid = [] then c = d else H (pid @ '' '' @ d) = Inr c"
      using ch by (auto split: sum.splits if_splits)
    have lay: "layers ls' = (layers ls)(c \<mapsto> l)" by (simp add: ls')
    show ?thesis
      unfolding obj using f h ch par len chain lay by auto
  qed
  have missing: "pid \<noteq> [] \<and> layers ls pid = None \<longrightarrow>
        Register H ls r pid = (Returns (Inl ErrLayerDoesNotExist), ls)"
    by (simp add: Register_missing_parent)
  have total: "\<exists>l ls'. Register H ls r pid = (Returns (Inr l), ls')"
    if pre: "(pid = [] \<or> pid \<in> dom (layers ls)) \<and> fault r = None \<and> (\<forall>s. \<exists>c. H s = Inr c)"
  proof -
    from pre obtain d where d: "H (content r) = Inr d" by blast
    from pre createChainIDFromParent_total [of H pid "[d]"]
    obtain c where c: "createChainIDFromParent H pid [d] = Returns c" by blast
    from pre have "pid = [] \<or> pid \<in> dom (layers ls)" and "fault r = None" by simp_all
    from Register_ok_intro [OF this d c] show ?thesis by (intro exI)
  qed
  show ?thesis using ok missing total by blast
qed

theorem Register_postcondition_witness:
  "Register prefixDigest store1 (readerOf ''id2'') ''sha256:id1'' =
     (Returns (Inr 1),
      \<lparr>objects = [\<lparr>layerData = ''id1'', diffID = ''sha256:id1'', chainID = ''sha256:id1'', parent = None\<rparr>,
                  \<lparr>layerData = ''id2'', diffID = ''sha256:id2'', chainID = ''sha256:sha256:id1 sha256:id2'', parent = Some 0\<rparr>],
       layers = [''sha256:id1'' \<mapsto> 0, ''sha256:sha256:id1 sha256:id2'' \<mapsto> 1]\<rparr>)
   \<and> prefixDigest ''id2'' = Inr ''sha256:id2''
   \<and> prefixDigest (''sha256:id1'' @ '' '' @ ''sha256:id2'') = Inr ''sha256:sha256:id1 sha256:id2''
   \<and> Register prefixDigest store1 (readerOf ''id2'') ''sha256:id9'' = (Returns (Inl ErrLayerDoesNotExist), store1)
   \<and> (\<exists>l ls'. Register prefixDigest store1 (readerOf ''id3'') ''sha256:id1'' = (Returns (Inr l), ls'))"
  using Register_postcondition [where H = prefixDigest and ls = store1 and r = "readerOf ''id2''"
          and pid = "''sha256:id1''" and l = 1
          and ls' = "\<lparr>objects = [\<lparr>layerData = ''id1'', diffID = ''sha256:id1'', chainID = ''sha256:id1'', parent = None\<rparr>,
                  \<lparr>layerData = ''id2'', diffID = ''sha256:id2'', chainID = ''sha256:sha256:id1 sha256:id2'', parent = Some 0\<rparr>],
       layers = [''sha256:id1'' \<mapsto> 0, ''sha256:sha256:id1 sha256:id2'' \<mapsto> 1]\<rparr>"]
    Register_postcondition [where H = prefixDigest and ls = store1 and r = "readerOf ''id2''"
          and pid = "''sha256:id9''"]
    Register_postcondition [where H = prefixDigest and ls = store1 and r = "readerOf ''id3''"
          and pid = "''sha256:id1''"]
  by (simp add: store1_eq Register_def Get_def readerOf_def prefixDigest_def)

lemma valid_pointers_empty: "valid_pointers emptyStore"
  by (simp add: valid_pointers_def emptyStore_def)

lemma Register_objects_prefix:
  "\<exists>zs. objects (snd (Register H ls r pid)) = objects ls @ zs"
  by (auto simp: Register_def Let_def simp del: createChainIDFromParent.simps
           split: if_splits option.splits sum.splits outcome.splits)

lemma Register_layers_cases:
  "layers (snd (Register H ls r pid)) = layers ls
   \<or> (\<exists>l ls'. Register H ls r pid = (Returns (Inr l), ls'))"
  by (auto simp: Register_def Let_def simp del: createChainIDFromParent.simps
           split: if_splits option.splits sum.splits outcome.splits)

lemma Register_valid_pointers:
  assumes v: "valid_pointers ls"
  shows "valid_pointers (snd (Register H ls r pid))"
proof -
  obtain zs where zs: "objects (snd (Register H ls r pid)) = objects ls @ zs"
    using Register_objects_prefix by blast
  consider (same) "layers (snd (Register H ls r pid)) = layers ls"
    | (ok) l ls' where "Register H ls r pid = (Returns (Inr l), ls')"
    using Register_layers_cases by blast
  then show ?thesis
  proof cases
    case same
    show ?thesis
      unfolding valid_pointers_def
    proof (intro allI impI)
      fix c l
      assume "layers (snd (Register H ls r pid)) c = Some l"
      then have "layers ls c = Some l" by (simp add: same)
      with v have "l < length (objects ls)" and "chainID (objects ls ! l) = c"
        by (auto simp: valid_pointers_def)
      then show "l < length (objects (snd (Register H ls r pid)))
          \<and> chainID (objects (snd (Register H ls r pid)) ! l) = c"
        by (simp add: zs nth_append)
    qed
  next
    case ok
    from Register_ok_shape [OF ok] obtain d c where
      l: "l = length (objects ls)"
      and ls': "ls' = \<lparr>objects = objects ls @
                      [\<lparr>layerData = content r, diffID = d, chainID = c,
                        parent = (if pid = [] then None else layers ls pid)\<rparr>],
                    layers = (layers ls)(c \<mapsto> l)\<rparr>"
      by blast
    have "valid_pointers ls'"
      unfolding valid_pointers_def
    proof (intro allI impI)
      fix k p
      assume k: "layers ls' k = Some p"
      show "p < length (objects ls') \<and> chainID (objects ls' ! p) = k"
      proof (cases "k = c")
        case True
        with k have "p = l" by (simp add: ls')
        then show ?thesis by (simp add: ls' l True)
      next
        case False
        with k have "layers ls k = Some p" by (simp add: ls')
        with v have "p < length (objects ls)" and "chainID (objects ls ! p) = k"
          by (auto simp: valid_pointers_def)
        then show ?thesis by (simp add: ls' nth_append)
      qed
    qed
    then show ?thesis by (simp add: ok)
  qed
qed

lemma valid_pointers_store1: "valid_pointers store1"
  unfolding store1_def using Register_valid_pointers [OF valid_pointers_empty] .

text \<open>
  Claim C7, as the claim states it, fails: registering the same bytes a second time
  returns a new layer object (pointer 1), not the one the store held for that ChainID
  (pointer 0), and the map entry is overwritten with the new pointer.
\<close>

theorem Register_idempotent_counterexample:
  "layers store1 ''sha256:id1'' = Some 0
   \<and> fst (Register prefixDigest store1 (readerOf ''id1'') []) = Returns (Inr 1)
   \<and> chainID (objects store2 ! 1) = ''sha256:id1''
   \<and> layers store2 ''sha256:id1'' = Some 1"
  by (simp add: store2_eq) (simp add: store1_eq Register_def readerOf_def prefixDigest_def)

text \<open>
  Claim C7, amended. When a successful \<open>Register\<close> produces a ChainID the store already
  holds, the returned layer is a newly allocated object, distinct from the existing
  one; it carries the same ChainID and takes the existing layer's place in the map, while
  the existing object itself and every other entry of the map are left as they were.
\<close>

theorem Register_replaces_existing:
  assumes v: "valid_pointers ls"
    and reg: "Register H ls r pid = (Returns (Inr l), ls')"
    and old: "layers ls (chainID (objects ls' ! l)) = Some q"
  shows "l \<noteq> q \<and> l = length (objects ls) \<and> q < length (objects ls)
         \<and> objects ls' ! q = objects ls ! q
         \<and> chainID (objects ls ! q) = chainID (objects ls' ! l)
         \<and> layers ls' = (layers ls)(chainID (objects ls' ! l) \<mapsto> l)
         \<and> valid_pointers ls'"
proof -
  from Register_ok_shape [OF reg] obtain d c where
    l: "l = length (objects ls)"
    and ls': "ls' = \<lparr>objects = objects ls @
                    [\<lparr>layerData = content r, diffID = d, chainID = c,
                      parent = (if pid = [] then None else layers ls pid)\<rparr>],
                  layers = (layers ls)(c \<mapsto> l)\<rparr>"
    by blast
  have c: "chainID (objects ls' ! l) = c" by (simp add: ls' l)
  from v old have q: "q < length (objects ls)" and cq: "chainID (objects ls ! q) = c"
    by (auto simp: valid_pointers_def c)
  have same: "objects ls' ! q = objects ls ! q" using q by (simp add: ls' nth_append)
  have lay: "layers ls' = (layers ls)(c \<mapsto> l)" by (simp add: ls')
  have v': "valid_pointers ls'"
    using Register_valid_pointers [OF v, of H r pid] by (simp add: reg)
  show ?thesis unfolding c using q l same cq lay v' by simp
qed

theorem Register_replaces_existing_witness:
  "valid_pointers store1
   \<and> Register prefixDigest store1 (readerOf ''id1'') [] = (Returns (Inr 1), store2)
   \<and> layers store1 (chainID (objects store2 ! 1)) = Some 0
   \<and> (1::nat) \<noteq> 0 \<and> 1 = length (objects store1) \<and> 0 < length (objects store1)
   \<and> objects store2 ! 0 = objects store1 ! 0
   \<and> chainID (objects store1 ! 0) = chainID (objects store2 ! 1)
   \<and> layers store2 = (layers store1)(chainID (objects store2 ! 1) \<mapsto> 1)
   \<and> valid_pointers store2"
proof -
  have v: "valid_pointers store1" by (rule valid_pointers_store1)
  have reg: "Register prefixDigest store1 (readerOf ''id1'') [] = (Returns (Inr 1), store2)"
    by (simp add: store2_eq) (simp add: store1_eq Register_def readerOf_def prefixDigest_def)
  have old: "layers store1 (chainID (objects store2 ! 1)) = Some 0"
    by (simp add: store2_eq) (simp add: store1_eq)
  note R = Register_replaces_existing [OF v reg old]
  show ?thesis
    by (rule conjI [OF v], rule conjI [OF reg], rule conjI [OF old], rule R)
qed

text \<open>
  Claim C8. \<open>Get\<close> returns the layer stored under a ChainID when there is one (in
  particular the layer a successful \<open>Register\<close> has just stored), and
  \<open>ErrLayerDoesNotExist\<close> with no layer otherwise; it fails only for an absent ChainID
  and only with that error.
\<close>

theorem Get_error_discipline:
  "(layers ls c = Some l \<longrightarrow> Get ls c = Inr l)
   \<and> (layers ls c = None \<longrightarrow> Get ls c = Inl ErrLayerDoesNotExist)
   \<and> (Get ls c = Inl e \<longrightarrow> e = ErrLayerDoesNotExist \<and> layers ls c = None)
   \<and> (Register H ls r pid = (Returns (Inr p), ls') \<longrightarrow>
        Get ls' (chainID (objects ls' ! p)) = Inr p)"
proof -
  have reg: "Get ls' (chainID (objects ls' ! p)) = Inr p"
    if "Register H ls r pid = (Returns (Inr p), ls')"
    using Register_ok_shape [OF that] by (auto simp: Get_def)
  show ?thesis using reg by (auto simp: Get_def split: option.splits)
qed

theorem Get_error_discipline_witness:
  "layers store1 ''sha256:id1'' = Some 0 \<and> Get store1 ''sha256:id1'' = Inr 0
   \<and> layers store1 ''sha256:id2'' = None \<and> Get store1 ''sha256:id2'' = Inl ErrLayerDoesNotExist
   \<and> Register prefixDigest store1 (readerOf ''id1'') [] = (Returns (Inr 1), store2)
   \<and> Get store2 (chainID (objects store2 ! 1)) = Inr 1"
proof -
  have reg: "Register prefixDigest store1 (readerOf ''id1'') [] = (Returns (Inr 1), store2)"
    by (simp add: store2_eq) (simp add: store1_eq Register_def readerOf_def prefixDigest_def)
  have a: "layers store1 ''sha256:id1'' = Some 0" and b: "layers store1 ''sha256:id2'' = None"
    by (simp_all add: store1_eq)
  have "Get store1 ''sha256:id1'' = Inr 0"
    using Get_error_discipline [where ls = store1 and c = "''sha256:id1''" and l = 0
        and e = ErrLayerDoesNotExist and H = prefixDigest and r = "readerOf ''id1''"
        and pid = "[]" and p = 1 and ls' = store2] a
    by blast
  moreover have "Get store1 ''sha256:id2'' = Inl ErrLayerDoesNotExist"
    using Get_error_discipline [where ls = store1 and c = "''sha256:id2''" and l = 0
        and e = ErrLayerDoesNotExist and H = prefixDigest and r = "readerOf ''id1''"
        and pid = "[]" and p = 1 and ls' = store2] b
    by blast
  moreover have "Get store2 (chainID (objects store2 ! 1)) = Inr 1"
    using Get_error_discipline [where ls = store1 and c = "''sha256:id2''" and l = 0
        and e = ErrLayerDoesNotExist and H = prefixDigest and r = "readerOf ''id1''"
        and pid = "[]" and p = 1 and ls' = store2] reg
    by blast
  ultimately show ?thesis using reg a b by blast
qed

section \<open>The profile lookup\<close>

text \<open>
  Claim C9. When the decoded list has \<open>Total \<le> 0\<close> the function returns the zero-value
  profile with a nil error, the same error value as for a found profile; a failure of
  the REST call or of the decoder returns the zero-value profile with that error.
\<close>

theorem GetProfileNameBySN_error_value:
  "(call ''/rest/server-profiles'' (profileQuery sn) = Inr data \<and> decode data = Inr profiles
      \<and> Total profiles \<le> 0 \<longrightarrow>
      GetProfileNameBySN call decode sn = Returns (zeroServerProfile, None))
   \<and> (call ''/rest/server-profiles'' (profileQuery sn) = Inr data \<and> decode data = Inr profiles
      \<and> 0 < Total profiles \<and> Members profiles = m # ms \<longrightarrow>
      GetProfileNameBySN call decode sn = Returns (m, None))
   \<and> (call ''/rest/server-profiles'' (profileQuery sn) = Inl err \<longrightarrow>
      GetProfileNameBySN call decode sn = Returns (zeroServerProfile, Some err))
   \<and> (call ''/rest/server-profiles'' (profileQuery sn) = Inr data \<and> decode data = Inl err \<longrightarrow>
      GetProfileNameBySN call decode sn = Returns (zeroServerProfile, Some err))"
  by (simp add: GetProfileNameBySN_def)

theorem GetProfileNameBySN_error_value_witness:
  "GetProfileNameBySN (answering ''{}'') (decodingTo zeroServerProfileList) ''2M25090RMW''
     = Returns (zeroServerProfile, None)
   \<and> GetProfileNameBySN (answering ''{}'')
        (decodingTo (zeroServerProfileList\<lparr>Total := 1, Members := [zeroServerProfile]\<rparr>)) ''2M25090RMW''
     = Returns (zeroServerProfile, None)
   \<and> GetProfileNameBySN refusing (decodingTo zeroServerProfileList) ''2M25090RMW''
     = Returns (zeroServerProfile, Some (Failure ''connection refused''))
   \<and> GetProfileNameBySN (answering ''{'') oneTotalNoMembers ''2M25090RMW''
     = Returns (zeroServerProfile, Some (Failure ''unexpected end of JSON input''))"
  using
    GetProfileNameBySN_error_value [where call = "answering ''{}''"
      and decode = "decodingTo zeroServerProfileList" and sn = "''2M25090RMW''" and data = "''{}''"
      and profiles = zeroServerProfileList and m = zeroServerProfile and ms = "[]"
      and err = "Failure ''connection refused''"]
    GetProfileNameBySN_error_value [where call = "answering ''{}''"
      and decode = "decodingTo (zeroServerProfileList\<lparr>Total := 1, Members := [zeroServerProfile]\<rparr>)"
      and sn = "''2M25090RMW''" and data = "''{}''"
      and profiles = "zeroServerProfileList\<lparr>Total := 1, Members := [zeroServerProfile]\<rparr>"
      and m = zeroServerProfile and ms = "[]"
      and err = "Failure ''connection refused''"]
    GetProfileNameBySN_error_value [where call = refusing
      and decode = "decodingTo zeroServerProfileList" and sn = "''2M25090RMW''" and data = "''{}''"
      and profiles = zeroServerProfileList and m = zeroServerProfile and ms = "[]"
      and err = "Failure ''connection refused''"]
    GetProfileNameBySN_error_value [where call = "answering ''{''"
      and decode = oneTotalNoMembers and sn = "''2M25090RMW''" and data = "''{''"
      and profiles = zeroServerProfileList and m = zeroServerProfile and ms = "[]"
      and err = "Failure ''unexpected end of JSON input''"]
  by (simp add: answering_def refusing_def decodingTo_def oneTotalNoMembers_def
        emptyMembersJSON_def zeroServerProfileList_def)

text \<open>
  Claim C10. The function panics exactly when the response decodes to a list with
  \<open>Total > 0\<close> and no members, and then with an index out of range; if every decodable
  list with \<open>Total > 0\<close> has a member, it always returns.
\<close>

theorem GetProfileNameBySN_index_guard:
  "(GetProfileNameBySN call decode sn = Panics e \<longleftrightarrow>
      e = IndexOutOfRange \<and>
      (\<exists>data profiles. call ''/rest/server-profiles'' (profileQuery sn) = Inr data
          \<and> decode data = Inr profiles \<and> 0 < Total profiles \<and> Members profiles = []))
   \<and> ((\<forall>data profiles. decode data = Inr profiles \<and> 0 < Total profiles
          \<longrightarrow> Members profiles \<noteq> []) \<longrightarrow>
        (\<exists>res. GetProfileNameBySN call decode sn = Returns res))"
proof -
  have a: "GetProfileNameBySN call decode sn = Panics e \<longleftrightarrow>
      e = IndexOutOfRange \<and>
      (\<exists>data profiles. call ''/rest/server-profiles'' (profileQuery sn) = Inr data
          \<and> decode data = Inr profiles \<and> 0 < Total profiles \<and> Members profiles = [])"
    by (auto simp: GetProfileNameBySN_def split: sum.splits list.splits)
  have b: "\<exists>res. GetProfileNameBySN call decode sn = Returns res"
    if "\<forall>data profiles. decode data = Inr profiles \<and> 0 < Total profiles
          \<longrightarrow> Members profiles \<noteq> []"
  proof (cases "GetProfileNameBySN call decode sn")
    case (Returns res)
    then show ?thesis by blast
  next
    case (Panics e')
    have "GetProfileNameBySN call decode sn = Panics e' \<longleftrightarrow>
      e' = IndexOutOfRange \<and>
      (\<exists>data profiles. call ''/rest/server-profiles'' (profileQuery sn) = Inr data
          \<and> decode data = Inr profiles \<and> 0 < Total profiles \<and> Members profiles = [])"
      by (auto simp: GetProfileNameBySN_def split: sum.splits list.splits)
    with Panics that show ?thesis by blast
  qed
  show ?thesis using a b by blast
qed

theorem GetProfileNameBySN_index_guard_witness:
  "GetProfileNameBySN (answering emptyMembersJSON) oneTotalNoMembers ''2M25090RMW''
     = Panics IndexOutOfRange
   \<and> answering emptyMembersJSON ''/rest/server-profiles'' (profileQuery ''2M25090RMW'')
       = Inr emptyMembersJSON
   \<and> oneTotalNoMembers emptyMembersJSON = Inr (zeroServerProfileList\<lparr>Total := 1\<rparr>)
   \<and> 0 < Total (zeroServerProfileList\<lparr>Total := 1\<rparr>)
   \<and> Members (zeroServerProfileList\<lparr>Total := 1\<rparr>) = []
   \<and> (\<exists>res. GetProfileNameBySN (answering emptyMembersJSON)
          (decodingTo (zeroServerProfileList\<lparr>Total := 1, Members := [zeroServerProfile]\<rparr>))
          ''2M25090RMW'' = Returns res)"
proof -
  have c: "answering emptyMembersJSON ''/rest/server-profiles'' (profileQuery ''2M25090RMW'')
       = Inr emptyMembersJSON"
    by (simp add: answering_def)
  have d: "oneTotalNoMembers emptyMembersJSON = Inr (zeroServerProfileList\<lparr>Total := 1\<rparr>)"
    by (simp add: oneTotalNoMembers_def)
  have t: "0 < Total (zeroServerProfileList\<lparr>Total := 1\<rparr>)"
    and m: "Members (zeroServerProfileList\<lparr>Total := 1\<rparr>) = []"
    by (simp_all add: zeroServerProfileList_def)
  have p: "GetProfileNameBySN (answering emptyMembersJSON) oneTotalNoMembers ''2M25090RMW''
     = Panics IndexOutOfRange"
    using GetProfileNameBySN_index_guard [where call = "answering emptyMembersJSON"
        and decode = oneTotalNoMembers and sn = "''2M25090RMW''" and e = IndexOutOfRange]
      c d t m by blast
  have nonempty: "\<forall>data profiles.
      decodingTo (zeroServerProfileList\<lparr>Total := 1, Members := [zeroServerProfile]\<rparr>) data = Inr profiles
        \<and> 0 < Total profiles \<longrightarrow> Members profiles \<noteq> []"
    by (auto simp: decodingTo_def)
  have r: "\<exists>res. GetProfileNameBySN (answering emptyMembersJSON)
          (decodingTo (zeroServerProfileList\<lparr>Total := 1, Members := [zeroServerProfile]\<rparr>))
          ''2M25090RMW'' = Returns res"
    using GetProfileNameBySN_index_guard [where call = "answering emptyMembersJSON"
        and decode = "decodingTo (zeroServerProfileList\<lparr>Total := 1, Members := [zeroServerProfile]\<rparr>)"
        and sn = "''2M25090RMW''" and e = IndexOutOfRange]
      nonempty by blast
  show ?thesis using p c d t m r by blast
qed

end
